theory Spec2Isabelle
  imports Complex_Main
begin

section \<open>JavaScript numbers\<close>

text \<open>
  The whiteboard code computes with JavaScript numbers. They are modelled as the reals
  extended by the two infinities and \<open>NaN\<close>, with the arithmetic and comparison rules of
  the language for these special values. Rounding of finite results and the sign of
  zero are not modelled: a finite operation on finite operands is the exact real one,
  and a division of a non-zero finite number by zero takes the zero as positive.
\<close>

datatype number = NaN | NegInf | Num real | PosInf

instantiation number :: "{plus, minus, uminus, times, inverse, ord}"
begin

fun uminus_number :: "number \<Rightarrow> number" where
  "uminus_number NaN = NaN"
| "uminus_number NegInf = PosInf"
| "uminus_number (Num a) = Num (- a)"
| "uminus_number PosInf = NegInf"

fun plus_number :: "number \<Rightarrow> number \<Rightarrow> number" where
  "plus_number NaN b = NaN"
| "plus_number a NaN = NaN"
| "plus_number (Num a) (Num b) = Num (a + b)"
| "plus_number PosInf NegInf = NaN"
| "plus_number NegInf PosInf = NaN"
| "plus_number PosInf b = PosInf"
| "plus_number a PosInf = PosInf"
| "plus_number NegInf b = NegInf"
| "plus_number a NegInf = NegInf"

definition minus_number :: "number \<Rightarrow> number \<Rightarrow> number" where
  "minus_number a b = a + (- b)"

fun times_number :: "number \<Rightarrow> number \<Rightarrow> number" where
  "times_number NaN b = NaN"
| "times_number a NaN = NaN"
| "times_number (Num a) (Num b) = Num (a * b)"
| "times_number PosInf (Num b) = (if b = 0 then NaN else if 0 < b then PosInf else NegInf)"
| "times_number NegInf (Num b) = (if b = 0 then NaN else if 0 < b then NegInf else PosInf)"
| "times_number (Num a) PosInf = (if a = 0 then NaN else if 0 < a then PosInf else NegInf)"
| "times_number (Num a) NegInf = (if a = 0 then NaN else if 0 < a then NegInf else PosInf)"
| "times_number PosInf PosInf = PosInf"
| "times_number NegInf NegInf = PosInf"
| "times_number PosInf NegInf = NegInf"
| "times_number NegInf PosInf = NegInf"

fun divide_number :: "number \<Rightarrow> number \<Rightarrow> number" where
  "divide_number NaN b = NaN"
| "divide_number a NaN = NaN"
| "divide_number (Num a) (Num b) =
     (if b = 0 then (if a = 0 then NaN else if 0 < a then PosInf else NegInf)
      else Num (a / b))"
| "divide_number (Num a) PosInf = Num 0"
| "divide_number (Num a) NegInf = Num 0"
| "divide_number PosInf (Num b) = (if 0 \<le> b then PosInf else NegInf)"
| "divide_number NegInf (Num b) = (if 0 \<le> b then NegInf else PosInf)"
| "divide_number a b = NaN"

definition inverse_number :: "number \<Rightarrow> number" where
  "inverse_number a = divide (Num 1) a"

fun less_eq_number :: "number \<Rightarrow> number \<Rightarrow> bool" where
  "less_eq_number NaN b = False"
| "less_eq_number a NaN = False"
| "less_eq_number NegInf b = True"
| "less_eq_number a PosInf = True"
| "less_eq_number (Num a) (Num b) = (a \<le> b)"
| "less_eq_number a b = False"

fun less_number :: "number \<Rightarrow> number \<Rightarrow> bool" where
  "less_number NaN b = False"
| "less_number a NaN = False"
| "less_number (Num a) (Num b) = (a < b)"
| "less_number NegInf NegInf = False"
| "less_number PosInf b = False"
| "less_number NegInf b = True"
| "less_number a PosInf = True"
| "less_number a b = False"

instance ..

end

text \<open>\<open>isNaN\<close>, \<open>Math.max\<close>, \<open>Math.min\<close>, \<open>Math.abs\<close> and \<open>Math.round\<close> of the language.
  \<open>Math.max\<close> and \<open>Math.min\<close> return \<open>NaN\<close> as soon as one argument is \<open>NaN\<close>;
  \<open>Math.round\<close> rounds halves towards positive infinity.\<close>

fun isNaN :: "number \<Rightarrow> bool" where
  "isNaN NaN = True"
| "isNaN a = False"

fun isFinite :: "number \<Rightarrow> bool" where
  "isFinite (Num a) = True"
| "isFinite a = False"

definition Math_max :: "number \<Rightarrow> number \<Rightarrow> number" where
  "Math_max a b = (if isNaN a \<or> isNaN b then NaN else if a \<le> b then b else a)"

definition Math_min :: "number \<Rightarrow> number \<Rightarrow> number" where
  "Math_min a b = (if isNaN a \<or> isNaN b then NaN else if a \<le> b then a else b)"

fun Math_abs :: "number \<Rightarrow> number" where
  "Math_abs NaN = NaN"
| "Math_abs NegInf = PosInf"
| "Math_abs (Num a) = Num \<bar>a\<bar>"
| "Math_abs PosInf = PosInf"

fun Math_round :: "number \<Rightarrow> number" where
  "Math_round (Num a) = Num (of_int \<lfloor>a + 1 / 2\<rfloor>)"
| "Math_round a = a"

section \<open>Constants (constants/whiteboard.ts)\<close>

definition SCALES_MIN :: number where "SCALES_MIN = Num (1 / 10)"
definition SCALES_INITIAL :: number where "SCALES_INITIAL = Num (3 / 10)"
definition SCALES_MAX :: number where "SCALES_MAX = Num 2"

definition STICKY_NOTE_WIDTH :: number where "STICKY_NOTE_WIDTH = Num 280"
definition STICKY_NOTE_HEIGHT :: number where "STICKY_NOTE_HEIGHT = Num 320"
definition STICKY_NOTE_MIN_WIDTH :: number where "STICKY_NOTE_MIN_WIDTH = Num 120"
definition STICKY_NOTE_MIN_HEIGHT :: number where "STICKY_NOTE_MIN_HEIGHT = Num 120"
definition STICKY_NOTE_MAX_WIDTH :: number where "STICKY_NOTE_MAX_WIDTH = Num 500"
definition STICKY_NOTE_MAX_HEIGHT :: number where "STICKY_NOTE_MAX_HEIGHT = Num 800"

section \<open>Transform model (utils/whiteboardUtils.ts)\<close>

definition clampScale :: "number \<Rightarrow> number \<Rightarrow> number \<Rightarrow> number" where
  "clampScale scale minScale maxScale = Math_min (Math_max scale minScale) maxScale"

section \<open>View controller (hooks/useWhiteboardView.ts)\<close>

record Transform =
  tr_x :: number
  tr_y :: number
  tr_scale :: number

text \<open>What a handler reads from the browser when it runs: the size of the window (a
  finite number of pixels), whether the user agent string matches the mobile pattern,
  and the clock \<open>Date.now()\<close> in milliseconds.\<close>

record Env =
  innerWidth :: real
  innerHeight :: real
  userAgentMobile :: bool
  now :: int

definition isMobile :: "Env \<Rightarrow> bool" where
  "isMobile env = (userAgentMobile env \<or> Num (innerWidth env) \<le> Num 768)"

text \<open>The state of the hook: the transform, the transition flag, whether the timer that
  clears the flag is pending, and the time of the last call let through by \<open>throttle\<close>.\<close>

record ViewState =
  transform :: Transform
  isTransitioning :: bool
  transitionTimeout :: bool
  lastCall :: int

datatype TransformUpdate = Value Transform | Updater "Transform \<Rightarrow> Transform"

definition computeInitialTransform :: Transform where
  "computeInitialTransform = \<lparr>tr_x = Num 0, tr_y = Num 0, tr_scale = SCALES_INITIAL\<rparr>"

definition initialViewState :: ViewState where
  "initialViewState =
     \<lparr>transform = computeInitialTransform, isTransitioning = False,
      transitionTimeout = False, lastCall = 0\<rparr>"

fun applyUpdate :: "TransformUpdate \<Rightarrow> Transform \<Rightarrow> Transform" where
  "applyUpdate (Value t) prevTransform = t"
| "applyUpdate (Updater f) prevTransform = f prevTransform"

definition updateTransform :: "Env \<Rightarrow> TransformUpdate \<Rightarrow> bool \<Rightarrow> ViewState \<Rightarrow> ViewState" where
  "updateTransform env transformUpdate animate st =
     (let st1 = (if animate then st\<lparr>isTransitioning := True, transitionTimeout := True\<rparr> else st);
          newTransform = applyUpdate transformUpdate (transform st1);
          maxPanX = Num (innerWidth env) * Num 2;
          maxPanY = Num (innerHeight env) * Num 2
      in st1\<lparr>transform :=
           \<lparr>tr_x = Math_max (- maxPanX) (Math_min maxPanX (tr_x newTransform)),
            tr_y = Math_max (- maxPanY) (Math_min maxPanY (tr_y newTransform)),
            tr_scale = clampScale (tr_scale newTransform) SCALES_MIN SCALES_MAX\<rparr>\<rparr>)"

text \<open>The timer set by an animated update fires 1300 ms later.\<close>

definition transitionTimeoutFires :: "ViewState \<Rightarrow> ViewState" where
  "transitionTimeoutFires st =
     (if transitionTimeout st then st\<lparr>isTransitioning := False, transitionTimeout := False\<rparr>
      else st)"

text \<open>\<open>throttle(func, 16)\<close> of utils/mobileOptimizations.ts: a call less than 16 ms
  after the last one let through is dropped.\<close>

definition throttledUpdateTransform ::
  "Env \<Rightarrow> TransformUpdate \<Rightarrow> bool \<Rightarrow> ViewState \<Rightarrow> ViewState" where
  "throttledUpdateTransform env update animate st =
     (if now env - lastCall st \<ge> 16
      then updateTransform env update animate (st\<lparr>lastCall := now env\<rparr>)
      else st)"

definition effectiveUpdateTransform ::
  "Env \<Rightarrow> TransformUpdate \<Rightarrow> bool \<Rightarrow> ViewState \<Rightarrow> ViewState" where
  "effectiveUpdateTransform env update animate st =
     (if isMobile env then throttledUpdateTransform env update animate st
      else updateTransform env update animate st)"

text \<open>The callbacks below close over the transform of the latest render, which is the
  transform of the state when the event is handled.\<close>

definition handleZoom :: "Env \<Rightarrow> number \<Rightarrow> number \<Rightarrow> number \<Rightarrow> bool \<Rightarrow> ViewState \<Rightarrow> ViewState" where
  "handleZoom env newScale focalX focalY animate st =
     (let t = transform st;
          centerX = Num (innerWidth env) / Num 2;
          centerY = Num (innerHeight env) / Num 2;
          offsetX = focalX - centerX;
          offsetY = focalY - centerY;
          scaleFactor = newScale / tr_scale t;
          newX = tr_x t - (offsetX / tr_scale t) * (Num 1 - Num 1 / scaleFactor);
          newY = tr_y t - (offsetY / tr_scale t) * (Num 1 - Num 1 / scaleFactor)
      in effectiveUpdateTransform env
           (Value \<lparr>tr_x = newX, tr_y = newY, tr_scale = newScale\<rparr>) animate st)"

record MouseEvent =
  clientX :: number
  clientY :: number
  ctrlKey :: bool
  metaKey :: bool

record WheelEvent = MouseEvent +
  deltaX :: number
  deltaY :: number

definition handleWheel :: "Env \<Rightarrow> WheelEvent \<Rightarrow> ViewState \<Rightarrow> ViewState" where
  "handleWheel env e st =
     (let t = transform st in
      if ctrlKey e \<or> metaKey e then
        (let delta = - deltaY e;
             zoomFactor = Num 0.005;
             direction = (if Num 0 < delta then Num 1 else Num (- 1));
             newScale = clampScale
               (tr_scale t * (Num 1 + direction * zoomFactor * Math_abs delta / Num 10))
               SCALES_MIN SCALES_MAX
         in handleZoom env newScale (clientX e) (clientY e) False st)
      else
        (let panSpeed = Num 2.5 / tr_scale t;
             newX = tr_x t - deltaX e * panSpeed;
             newY = tr_y t - deltaY e * panSpeed
         in effectiveUpdateTransform env
              (Updater (\<lambda>prev. prev\<lparr>tr_x := newX, tr_y := newY\<rparr>)) False st))"

definition handleZoomIn :: "Env \<Rightarrow> bool \<Rightarrow> ViewState \<Rightarrow> ViewState" where
  "handleZoomIn env animate st =
     (let newScale = clampScale (tr_scale (transform st) * Num 1.2) SCALES_MIN SCALES_MAX
      in handleZoom env newScale (Num (innerWidth env) / Num 2) (Num (innerHeight env) / Num 2)
           animate st)"

definition handleZoomOut :: "Env \<Rightarrow> bool \<Rightarrow> ViewState \<Rightarrow> ViewState" where
  "handleZoomOut env animate st =
     (let newScale = clampScale (tr_scale (transform st) / Num 1.2) SCALES_MIN SCALES_MAX
      in handleZoom env newScale (Num (innerWidth env) / Num 2) (Num (innerHeight env) / Num 2)
           animate st)"

definition centerView :: "Env \<Rightarrow> bool \<Rightarrow> ViewState \<Rightarrow> ViewState" where
  "centerView env animate st =
     effectiveUpdateTransform env (Value computeInitialTransform) animate st"

definition handleResize :: "Env \<Rightarrow> ViewState \<Rightarrow> ViewState" where
  "handleResize env st =
     effectiveUpdateTransform env
       (Updater (\<lambda>prev. prev\<lparr>tr_x := Num 0, tr_y := Num 0\<rparr>)) False st"

text \<open>A sequence of calls of the exported \<open>updateTransform\<close>, each with the browser
  state at its time; the result lists the state after every call.\<close>

fun updateTransformCalls ::
  "(Env \<times> TransformUpdate \<times> bool) list \<Rightarrow> ViewState \<Rightarrow> ViewState list" where
  "updateTransformCalls [] st = []"
| "updateTransformCalls ((env, update, animate) # calls) st =
     (let st' = effectiveUpdateTransform env update animate st
      in st' # updateTransformCalls calls st')"

definition scaleInRange :: "number \<Rightarrow> bool" where
  "scaleInRange s = (SCALES_MIN \<le> s \<and> s \<le> SCALES_MAX)"


record Point =
  pt_x :: number
  pt_y :: number

text \<open>Modelled from the spec: the stylesheet that paints the transform is not among the
  sources. The spec gives the mapping of a world point to the screen as
  \<open>screen = worldPoint * scale + viewportCenter + (x, y)\<close>, which is also the transform
  chain quoted in hooks/useWhiteboardZoom.ts (centre, then translate, then scale).
  \<open>screenToWorld\<close> is its inverse: the world point that maps to a screen point.\<close>

definition worldToScreen :: "Env \<Rightarrow> Transform \<Rightarrow> Point \<Rightarrow> Point" where
  "worldToScreen env t w =
     \<lparr>pt_x = pt_x w * tr_scale t + Num (innerWidth env) / Num 2 + tr_x t,
      pt_y = pt_y w * tr_scale t + Num (innerHeight env) / Num 2 + tr_y t\<rparr>"

definition screenToWorld :: "Env \<Rightarrow> Transform \<Rightarrow> Point \<Rightarrow> Point" where
  "screenToWorld env t p =
     \<lparr>pt_x = (pt_x p - Num (innerWidth env) / Num 2 - tr_x t) / tr_scale t,
      pt_y = (pt_y p - Num (innerHeight env) / Num 2 - tr_y t) / tr_scale t\<rparr>"

section \<open>Items (types/whiteboard.ts, utils/itemLayoutUtils.ts)\<close>

datatype ItemType = Album | Snip | Playlist

record Position =
  pos_x :: number
  pos_y :: number
  pos_z :: number
  pos_width :: number
  pos_height :: number
  pos_expanded :: bool
  pos_rotation :: number

text \<open>The content record of an item is opaque to the whiteboard: a type parameter.\<close>

record 'd WhiteboardItem =
  item_id :: string
  item_type :: ItemType
  item_data :: 'd
  position :: Position





section \<open>Content-aware sizing (utils/contentMeasurement.ts)\<close>

datatype error = TypeError | DOMError

text \<open>What the sizing engine reads from a card element: whether it holds a
  \<open>.sticky-note-content\<close> node, the scroll extent of the off-screen container that
  holds the clone of that node, the text of its \<open>pre\<close> elements, its whole text, and
  whether a call into the document raises while the clone is measured.\<close>

record HTMLElement =
  hasContentContainer :: bool
  scrollHeight :: number
  scrollWidth :: number
  preTexts :: "string list"
  textContent :: string
  domRaises :: bool

record Measurement =
  requiredHeight :: number
  requiredWidth :: number
  hasOverflow :: bool

record Dimensions =
  width :: number
  height :: number

definition measureContentHeight :: "HTMLElement option \<Rightarrow> error + Measurement" where
  "measureContentHeight cardElement =
     (case cardElement of
        None \<Rightarrow> Inr \<lparr>requiredHeight = STICKY_NOTE_HEIGHT, requiredWidth = STICKY_NOTE_WIDTH,
                     hasOverflow = False\<rparr>
      | Some el \<Rightarrow>
          if \<not> hasContentContainer el then
            Inr \<lparr>requiredHeight = STICKY_NOTE_HEIGHT, requiredWidth = STICKY_NOTE_WIDTH,
                 hasOverflow = False\<rparr>
          else if domRaises el then Inl DOMError
          else
            (let naturalHeight = scrollHeight el;
                 naturalWidth = scrollWidth el;
                 BUTTON_SPACING = Num 48;
                 CARD_PADDING = Num 32;
                 CONTENT_MARGIN = Num 16;
                 requiredContentHeight = naturalHeight + CONTENT_MARGIN;
                 requiredTotalHeight =
                   Math_max (requiredContentHeight + BUTTON_SPACING) STICKY_NOTE_MIN_HEIGHT;
                 requiredWidth =
                   Math_max (Math_min (naturalWidth + CARD_PADDING) STICKY_NOTE_MAX_WIDTH)
                     STICKY_NOTE_MIN_WIDTH;
                 hasOverflow = (requiredTotalHeight > STICKY_NOTE_HEIGHT \<or>
                                requiredWidth > STICKY_NOTE_WIDTH)
             in Inr \<lparr>requiredHeight = Math_min requiredTotalHeight STICKY_NOTE_MAX_HEIGHT,
                     requiredWidth = requiredWidth, hasOverflow = hasOverflow\<rparr>))"

fun join :: "string \<Rightarrow> string list \<Rightarrow> string" where
  "join sep [] = []"
| "join sep [t] = t"
| "join sep (t # ts) = t @ sep @ join sep ts"

record Complexity =
  isTextHeavy :: bool
  approximateTextLength :: number

definition estimateContentComplexity :: "HTMLElement \<Rightarrow> Complexity" where
  "estimateContentComplexity cardElement =
     (let preText = join '' '' (preTexts cardElement);
          totalTextLength = length (textContent cardElement);
          isTextHeavy = (length preText > 200 \<or> totalTextLength > 400)
      in \<lparr>isTextHeavy = isTextHeavy, approximateTextLength = Num (real totalTextLength)\<rparr>)"

definition calculateOptimalSize :: "HTMLElement \<Rightarrow> bool \<Rightarrow> error + Dimensions" where
  "calculateOptimalSize cardElement isCurrentlyExpanded =
     (if isCurrentlyExpanded then
        Inr \<lparr>width = STICKY_NOTE_WIDTH, height = STICKY_NOTE_HEIGHT\<rparr>
      else
        (case measureContentHeight (Some cardElement) of
           Inl e \<Rightarrow> Inl e
         | Inr measurement \<Rightarrow>
             (let complexity = estimateContentComplexity cardElement in
              if isTextHeavy complexity then
                (let estimatedHeight =
                       Math_max
                         (Math_max (requiredHeight measurement) (STICKY_NOTE_HEIGHT * Num 2))
                         (Math_min (approximateTextLength complexity * Num 1.2)
                            STICKY_NOTE_MAX_HEIGHT)
                 in Inr \<lparr>width = Math_min (STICKY_NOTE_WIDTH * Num 1.6) STICKY_NOTE_MAX_WIDTH,
                         height = estimatedHeight\<rparr>)
              else if hasOverflow measurement then
                Inr \<lparr>width = requiredWidth measurement, height = requiredHeight measurement\<rparr>
              else
                Inr \<lparr>width = STICKY_NOTE_WIDTH * Num 1.4,
                     height = STICKY_NOTE_HEIGHT * Num 1.4\<rparr>)))"


section \<open>Item store (hooks/useWhiteboardItems.ts)\<close>

record DragState =
  itemId :: "string option"
  initialMousePos :: "Point option"
  initialItemPos :: "Point option"
  offset :: "Point option"

text \<open>The state of the hook: the items, the id being dragged, the drag session, whether
  the window listeners for mousemove and mouseup are registered, and the card elements
  for which a zoom-to-fit callback has been scheduled.\<close>

record 'd ItemsState =
  itemList :: "'d WhiteboardItem list"
  dragging :: "string option"
  dragState :: DragState
  listening :: bool
  zoomToFitTimers :: "HTMLElement list"

definition noDrag :: DragState where
  "noDrag = \<lparr>itemId = None, initialMousePos = None, initialItemPos = None, offset = None\<rparr>"

text \<open>The element found by \<open>document.querySelector('.transform-container')\<close>, if any:
  its bounding rectangle and the value of
  \<open>parseFloat(getComputedStyle(container).getPropertyValue('--scale'))\<close>, which is \<open>NaN\<close>
  when the property is missing (the empty string) or does not start with a number.\<close>

record DOMRect =
  rect_left :: number
  rect_top :: number
  rect_width :: number
  rect_height :: number

record Container =
  boundingClientRect :: DOMRect
  scaleProperty :: number

text \<open>Reading the style or the rectangle of \<open>null\<close> raises a TypeError.\<close>

definition getComputedScale :: "Container option \<Rightarrow> error + number" where
  "getComputedScale container =
     (case container of None \<Rightarrow> Inl TypeError | Some c \<Rightarrow> Inr (scaleProperty c))"

definition getBoundingClientRect :: "Container option \<Rightarrow> error + DOMRect" where
  "getBoundingClientRect container =
     (case container of None \<Rightarrow> Inl TypeError | Some c \<Rightarrow> Inr (boundingClientRect c))"

definition getContainerScale :: "Container option \<Rightarrow> error + number" where
  "getContainerScale container =
     (if container = None then Inr (Num 1)
      else case getComputedScale container of
             Inl e \<Rightarrow> Inl e
           | Inr scale \<Rightarrow> Inr (if isNaN scale then Num 1 else scale))"

text \<open>The mouse position relative to the centre of the container, divided by the scale.\<close>

definition relativeMouse :: "DOMRect \<Rightarrow> number \<Rightarrow> MouseEvent \<Rightarrow> Point" where
  "relativeMouse rect scale event =
     (let centerX = rect_left rect + rect_width rect / Num 2;
          centerY = rect_top rect + rect_height rect / Num 2
      in \<lparr>pt_x = (clientX event - centerX) / scale,
          pt_y = (clientY event - centerY) / scale\<rparr>)"

definition handleDragMove ::
  "Container option \<Rightarrow> MouseEvent \<Rightarrow> 'd ItemsState \<Rightarrow> error + 'd ItemsState" where
  "handleDragMove container event st =
     (case (itemId (dragState st), offset (dragState st)) of
        (Some dragId, Some off) \<Rightarrow>
          if dragId = [] then Inr st
          else if container = None then Inr st
          else
            (case getBoundingClientRect container of
               Inl e \<Rightarrow> Inl e
             | Inr rect \<Rightarrow>
                 (case getContainerScale container of
                    Inl e \<Rightarrow> Inl e
                  | Inr scale \<Rightarrow>
                      (let mouse = relativeMouse rect scale event;
                           newX = pt_x mouse - pt_x off;
                           newY = pt_y mouse - pt_y off
                       in Inr (st\<lparr>itemList :=
                            map (\<lambda>item.
                                   if item_id item = dragId
                                   then item\<lparr>position :=
                                          (position item)\<lparr>pos_x := newX, pos_y := newY\<rparr>\<rparr>
                                   else item) (itemList st)\<rparr>))))
      | _ \<Rightarrow> Inr st)"


definition handleDragStart ::
  "Container option \<Rightarrow> string \<Rightarrow> MouseEvent \<Rightarrow> 'd ItemsState \<Rightarrow> error + 'd ItemsState" where
  "handleDragStart container ident event st =
     (case find (\<lambda>i. item_id i = ident) (itemList st) of
        None \<Rightarrow> Inr st
      | Some item \<Rightarrow>
          if container = None then Inr st
          else
            (case getBoundingClientRect container of
               Inl e \<Rightarrow> Inl e
             | Inr rect \<Rightarrow>
                 (case getContainerScale container of
                    Inl e \<Rightarrow> Inl e
                  | Inr scale \<Rightarrow>
                      (let mouse = relativeMouse rect scale event;
                           off = \<lparr>pt_x = pt_x mouse - pos_x (position item),
                                  pt_y = pt_y mouse - pos_y (position item)\<rparr>
                       in Inr (st\<lparr>dragging := Some ident,
                                 dragState :=
                                   \<lparr>itemId = Some ident,
                                    initialMousePos = Some mouse,
                                    initialItemPos =
                                      Some \<lparr>pt_x = pos_x (position item),
                                            pt_y = pos_y (position item)\<rparr>,
                                    offset = Some off\<rparr>,
                                 listening := True\<rparr>)))))"




text \<open>The body of the \<open>map\<close> callback of \<open>handleExpand\<close> for an item with the given id:
  the fallback size, replaced by the content-aware size unless there is no card element
  or the measurement raises.\<close>

definition expandItem :: "HTMLElement option \<Rightarrow> 'd WhiteboardItem \<Rightarrow> 'd WhiteboardItem" where
  "expandItem cardElement item =
     (let isExpanded = pos_expanded (position item);
          fallback =
            \<lparr>width = (if isExpanded then STICKY_NOTE_WIDTH else STICKY_NOTE_WIDTH * Num 1.5),
             height = (if isExpanded then STICKY_NOTE_HEIGHT else STICKY_NOTE_HEIGHT * Num 1.5)\<rparr>;
          newDimensions =
            (case cardElement of
               None \<Rightarrow> fallback
             | Some el \<Rightarrow>
                 (case calculateOptimalSize el isExpanded of
                    Inl e \<Rightarrow> fallback
                  | Inr d \<Rightarrow> d))
      in item\<lparr>position := (position item)
           \<lparr>pos_width := width newDimensions,
            pos_height := height newDimensions,
            pos_expanded := \<not> isExpanded\<rparr>\<rparr>)"

text \<open>\<open>handleExpand\<close>; \<open>onZoomToFit\<close> says whether the option of that name was given.\<close>

definition handleExpand ::
  "Env \<Rightarrow> bool \<Rightarrow> string \<Rightarrow> HTMLElement option \<Rightarrow> 'd ItemsState \<Rightarrow> 'd ItemsState" where
  "handleExpand env onZoomToFit ident cardElement st =
     st\<lparr>itemList :=
          map (\<lambda>item. if item_id item = ident then expandItem cardElement item else item)
            (itemList st),
        zoomToFitTimers :=
          zoomToFitTimers st @
          concat (map (\<lambda>item.
                    case cardElement of
                      None \<Rightarrow> []
                    | Some el \<Rightarrow>
                        if item_id item = ident \<and> isMobile env \<and>
                           \<not> pos_expanded (position item) \<and> onZoomToFit
                        then [el] else [])
                  (itemList st))\<rparr>"

section \<open>Card focus (hooks/useCardFocus.ts)\<close>

text \<open>The remainder operator \<open>%\<close> on integers: the sign of the result is that of the
  dividend, and the result is \<open>NaN\<close> (here \<open>None\<close>) when the divisor is zero.\<close>

definition js_rem :: "int \<Rightarrow> int \<Rightarrow> int option" where
  "js_rem a n = (if n = 0 then None else Some (sgn a * (\<bar>a\<bar> mod \<bar>n\<bar>)))"

text \<open>\<open>xs[k]\<close>: \<open>undefined\<close> (here \<open>None\<close>) outside the list.\<close>

definition at_index :: "'a list \<Rightarrow> int \<Rightarrow> 'a option" where
  "at_index xs k = (if 0 \<le> k \<and> k < int (length xs) then Some (xs ! nat k) else None)"

record CardFocus =
  currentIndex :: int
  view :: ViewState

definition getZoomLevel :: "Env \<Rightarrow> number" where
  "getZoomLevel env = (if isMobile env then Num 1.2 else Num 1.5)"

text \<open>\<open>focusOnCard\<close>. After the guard on the empty list, an index that were \<open>NaN\<close> or
  outside the list would make the card undefined, and reading \<open>card.id\<close> would raise.\<close>

definition focusOnCard ::
  "Env \<Rightarrow> 'd WhiteboardItem list \<Rightarrow> int \<Rightarrow> CardFocus \<Rightarrow> error + CardFocus" where
  "focusOnCard env items index st =
     (if length items = 0 then Inr st
      else
        (let n = int (length items) in
         case (case js_rem index n of None \<Rightarrow> None | Some r \<Rightarrow> js_rem (r + n) n) of
           None \<Rightarrow> Inl TypeError
         | Some clampedIndex \<Rightarrow>
             (case at_index items clampedIndex of
                None \<Rightarrow> Inl TypeError
              | Some focusCard \<Rightarrow>
                  (let cardCenterX = pos_x (position focusCard);
                       cardCenterY = pos_y (position focusCard);
                       zoomLevel = getZoomLevel env;
                       targetX = Math_round (- cardCenterX * zoomLevel * Num 100) / Num 100;
                       targetY = Math_round (- cardCenterY * zoomLevel * Num 100) / Num 100;
                       newTransform = \<lparr>tr_x = targetX, tr_y = targetY, tr_scale = zoomLevel\<rparr>
                   in Inr (st\<lparr>currentIndex := clampedIndex,
                             view := effectiveUpdateTransform env (Value newTransform) True
                                       (view st)\<rparr>)))))"

definition onFocusPrev :: "Env \<Rightarrow> 'd WhiteboardItem list \<Rightarrow> CardFocus \<Rightarrow> error + CardFocus" where
  "onFocusPrev env items st = focusOnCard env items (currentIndex st - 1) st"

definition onFocusNext :: "Env \<Rightarrow> 'd WhiteboardItem list \<Rightarrow> CardFocus \<Rightarrow> error + CardFocus" where
  "onFocusNext env items st = focusOnCard env items (currentIndex st + 1) st"


section \<open>Example inputs\<close>

definition desktop :: Env where
  "desktop = \<lparr>innerWidth = 1000, innerHeight = 800, userAgentMobile = False, now = 0\<rparr>"

definition exampleCalls :: "(Env \<times> TransformUpdate \<times> bool) list" where
  "exampleCalls =
     [(desktop, Value \<lparr>tr_x = Num 0, tr_y = Num 0, tr_scale = Num 5\<rparr>, True),
      (desktop, Updater (\<lambda>prev. prev\<lparr>tr_x := Num 10, tr_y := Num 0\<rparr>), False),
      (desktop, Value \<lparr>tr_x = Num 0, tr_y = Num 0, tr_scale = NegInf\<rparr>, False)]"

definition panEvent :: WheelEvent where
  "panEvent = \<lparr>clientX = Num 0, clientY = Num 0, ctrlKey = False, metaKey = False,
      deltaX = Num 100, deltaY = Num 0\<rparr>"

definition viewAt :: "real \<Rightarrow> real \<Rightarrow> real \<Rightarrow> ViewState" where
  "viewAt a b s = initialViewState\<lparr>transform := \<lparr>tr_x = Num a, tr_y = Num b, tr_scale = Num s\<rparr>\<rparr>"

definition exampleItem :: "string \<Rightarrow> real \<Rightarrow> real \<Rightarrow> real \<Rightarrow> unit WhiteboardItem" where
  "exampleItem ident px py pz =
     \<lparr>item_id = ident, item_type = Snip, item_data = (),
      position = \<lparr>pos_x = Num px, pos_y = Num py, pos_z = Num pz,
                  pos_width = STICKY_NOTE_WIDTH, pos_height = STICKY_NOTE_HEIGHT,
                  pos_expanded = False, pos_rotation = Num 0\<rparr>\<rparr>"

definition fiveItems :: "unit WhiteboardItem list" where
  "fiveItems =
     [exampleItem ''snip-a'' (- 450) (- 225) 0, exampleItem ''snip-b'' 0 (- 225) 1,
      exampleItem ''snip-c'' 450 (- 225) 2, exampleItem ''snip-d'' (- 450) 225 3,
      exampleItem ''snip-e'' 0 225 4]"

definition storeOf :: "unit WhiteboardItem list \<Rightarrow> unit ItemsState" where
  "storeOf its =
     \<lparr>itemList = its, dragging = None, dragState = noDrag, listening = False,
      zoomToFitTimers = []\<rparr>"

definition longCard :: HTMLElement where
  "longCard =
     \<lparr>hasContentContainer = True, scrollHeight = Num 1000, scrollWidth = Num 300,
      preTexts = [], textContent = ''notes'', domRaises = False\<rparr>"


definition unscaledContainer :: Container where
  "unscaledContainer =
     \<lparr>boundingClientRect =
        \<lparr>rect_left = Num 0, rect_top = Num 0, rect_width = Num 1000, rect_height = Num 800\<rparr>,
      scaleProperty = NaN\<rparr>"


definition mouseAt :: "real \<Rightarrow> real \<Rightarrow> MouseEvent" where
  "mouseAt px py = \<lparr>clientX = Num px, clientY = Num py, ctrlKey = False, metaKey = False\<rparr>"


section \<open>Facts about numbers\<close>

lemma Math_max_Num [simp]: "Math_max (Num a) (Num b) = Num (max a b)"
  by (simp add: Math_max_def max_def)

lemma Math_min_Num [simp]: "Math_min (Num a) (Num b) = Num (min a b)"
  by (simp add: Math_min_def min_def)

lemma less_eq_not_NaN: "(a :: number) \<le> b \<Longrightarrow> \<not> isNaN a \<and> \<not> isNaN b"
  by (cases a; cases b) simp_all

section \<open>The transform model\<close>

text \<open>Claim C9, as amended: \<open>clampScale\<close> is total and idempotent. For finite bounds
  with \<open>minScale \<le> maxScale\<close> and every scale that is not \<open>NaN\<close>, finite or infinite, the
  result is finite and lies between \<open>minScale\<close> and \<open>maxScale\<close>, so an infinite scale is
  not propagated; a scale of \<open>NaN\<close> is: the result is \<open>NaN\<close>. In every case, clamping the
  result again returns it unchanged.\<close>

theorem clampScale_total_idempotent:
  assumes "isFinite minScale" and "isFinite maxScale" and "minScale \<le> maxScale"
  shows "(if isNaN s then clampScale s minScale maxScale = NaN
          else isFinite (clampScale s minScale maxScale) \<and>
               minScale \<le> clampScale s minScale maxScale \<and>
               clampScale s minScale maxScale \<le> maxScale) \<and>
         clampScale (clampScale s minScale maxScale) minScale maxScale =
           clampScale s minScale maxScale"
proof -
  obtain lo hi where bounds: "minScale = Num lo" "maxScale = Num hi"
    using assms(1,2) by (cases minScale; cases maxScale) auto
  then have "lo \<le> hi" using assms(3) by simp
  then show ?thesis
    unfolding bounds by (cases s) (simp_all add: clampScale_def Math_max_def Math_min_def)
qed

theorem clampScale_total_idempotent_witness:
  "isFinite SCALES_MIN \<and> isFinite SCALES_MAX \<and> SCALES_MIN \<le> SCALES_MAX \<and>
   clampScale PosInf SCALES_MIN SCALES_MAX = Num 2 \<and>
   clampScale (clampScale PosInf SCALES_MIN SCALES_MAX) SCALES_MIN SCALES_MAX = Num 2 \<and>
   clampScale (Num 0) SCALES_MIN SCALES_MAX = Num (1 / 10)"
proof -
  have bounds: "isFinite SCALES_MIN" "isFinite SCALES_MAX" "SCALES_MIN \<le> SCALES_MAX"
    by (simp_all add: SCALES_MIN_def SCALES_MAX_def)
  show ?thesis
    using bounds
      clampScale_total_idempotent [OF bounds, of PosInf]
      clampScale_total_idempotent [OF bounds, of "Num 0"]
    by (simp add: SCALES_MIN_def SCALES_MAX_def clampScale_def Math_max_def Math_min_def)
qed

text \<open>Claim C9 as stated fails: with the finite bounds 0.1 and 2, a scale of \<open>NaN\<close> comes
  back as \<open>NaN\<close>, which is neither finite nor between the bounds.\<close>

theorem clampScale_NaN_counterexample:
  "clampScale NaN SCALES_MIN SCALES_MAX = NaN \<and>
   \<not> isFinite (clampScale NaN SCALES_MIN SCALES_MAX) \<and>
   \<not> (SCALES_MIN \<le> clampScale NaN SCALES_MIN SCALES_MAX \<and>
       clampScale NaN SCALES_MIN SCALES_MAX \<le> SCALES_MAX)"
  by (simp add: clampScale_def Math_max_def Math_min_def)

section \<open>The view controller\<close>

lemma clampScale_not_NaN: "\<not> isNaN s \<Longrightarrow> scaleInRange (clampScale s SCALES_MIN SCALES_MAX)"
  by (cases s) (simp_all add: clampScale_def Math_max_def Math_min_def scaleInRange_def
      SCALES_MIN_def SCALES_MAX_def)

lemma updateTransform_scale:
  "tr_scale (transform (updateTransform env update animate st)) =
     clampScale (tr_scale (applyUpdate update (transform st))) SCALES_MIN SCALES_MAX"
  by (simp add: updateTransform_def Let_def)

lemma effectiveUpdateTransform_scale:
  assumes "scaleInRange (tr_scale (transform st))"
    and "\<not> isNaN (tr_scale (applyUpdate update (transform st)))"
  shows "scaleInRange (tr_scale (transform (effectiveUpdateTransform env update animate st)))"
  using assms
  by (simp add: effectiveUpdateTransform_def throttledUpdateTransform_def
      updateTransform_scale clampScale_not_NaN)

text \<open>Claim C2, as amended: start from a transform whose scale lies in
  \<open>[SCALES_MIN, SCALES_MAX]\<close> (the initial one does) and make any sequence of calls of
  \<open>updateTransform\<close>, with a value or with an updater function, in which no requested
  scale is \<open>NaN\<close>. Then after every call the scale lies in \<open>[SCALES_MIN, SCALES_MAX]\<close>:
  finite requests out of range and infinite ones are clamped.\<close>

theorem updateTransformCalls_scale_in_range:
  assumes "scaleInRange (tr_scale (transform st))"
    and "\<forall>(env, update, animate) \<in> set calls.
           \<forall>prev. scaleInRange (tr_scale prev) \<longrightarrow> \<not> isNaN (tr_scale (applyUpdate update prev))"
  shows "\<forall>st' \<in> set (updateTransformCalls calls st).
           SCALES_MIN \<le> tr_scale (transform st') \<and> tr_scale (transform st') \<le> SCALES_MAX"
  using assms
proof (induction calls arbitrary: st)
  case Nil
  then show ?case by simp
next
  case (Cons call calls)
  obtain env update animate where call: "call = (env, update, animate)"
    by (cases call) auto
  let ?st' = "effectiveUpdateTransform env update animate st"
  have "\<not> isNaN (tr_scale (applyUpdate update (transform st)))"
    using Cons.prems call by auto
  then have inv: "scaleInRange (tr_scale (transform ?st'))"
    using Cons.prems(1) by (rule effectiveUpdateTransform_scale[rotated])
  moreover have "\<forall>st' \<in> set (updateTransformCalls calls ?st').
           SCALES_MIN \<le> tr_scale (transform st') \<and> tr_scale (transform st') \<le> SCALES_MAX"
    using Cons.IH[OF inv] Cons.prems(2) by simp
  ultimately show ?case
    by (simp add: call Let_def scaleInRange_def)
qed

theorem updateTransformCalls_scale_in_range_witness:
  "scaleInRange (tr_scale (transform initialViewState)) \<and>
   list_all (\<lambda>st'. SCALES_MIN \<le> tr_scale (transform st') \<and> tr_scale (transform st') \<le> SCALES_MAX)
     (updateTransformCalls exampleCalls initialViewState) \<and>
   length (updateTransformCalls exampleCalls initialViewState) = 3"
proof -
  have start: "scaleInRange (tr_scale (transform initialViewState))"
    by (simp add: initialViewState_def computeInitialTransform_def scaleInRange_def
        SCALES_MIN_def SCALES_INITIAL_def SCALES_MAX_def)
  have requests: "\<forall>(env, update, animate) \<in> set exampleCalls.
      \<forall>prev. scaleInRange (tr_scale prev) \<longrightarrow> \<not> isNaN (tr_scale (applyUpdate update prev))"
    by (auto simp: exampleCalls_def scaleInRange_def dest: less_eq_not_NaN)
  show ?thesis
    using start updateTransformCalls_scale_in_range [OF start requests]
    by (simp add: list_all_iff exampleCalls_def Let_def)
qed

text \<open>Claim C2 as stated fails: a requested scale of \<open>NaN\<close> passes through \<open>Math.max\<close>
  and \<open>Math.min\<close> and becomes the scale of the transform.\<close>

theorem updateTransform_NaN_counterexample:
  "tr_scale (transform (effectiveUpdateTransform desktop
      (Value \<lparr>tr_x = Num 0, tr_y = Num 0, tr_scale = NaN\<rparr>) False initialViewState)) = NaN \<and>
   \<not> (SCALES_MIN \<le> tr_scale (transform (effectiveUpdateTransform desktop
         (Value \<lparr>tr_x = Num 0, tr_y = Num 0, tr_scale = NaN\<rparr>) False initialViewState)) \<and>
       tr_scale (transform (effectiveUpdateTransform desktop
         (Value \<lparr>tr_x = Num 0, tr_y = Num 0, tr_scale = NaN\<rparr>) False initialViewState))
         \<le> SCALES_MAX)"
  by (simp add: effectiveUpdateTransform_def isMobile_def desktop_def updateTransform_def
      clampScale_def Math_max_def Math_min_def Let_def)

text \<open>Claim C1 asks that the world point under the focal screen point stays under it
  after \<open>handleZoom\<close>. It does not: in a window of 1000 by 800 pixels with the transform
  \<open>(0, 0, 1)\<close>, the world point \<open>(100, 0)\<close> lies under the screen point \<open>(600, 400)\<close>;
  zooming to scale 2 at that screen point gives the transform \<open>(-50, 0, 2)\<close>, under
  which the same world point is painted at \<open>(650, 400)\<close>.\<close>

theorem handleZoom_focus_not_preserved:
  "screenToWorld desktop \<lparr>tr_x = Num 0, tr_y = Num 0, tr_scale = Num 1\<rparr>
      \<lparr>pt_x = Num 600, pt_y = Num 400\<rparr> = \<lparr>pt_x = Num 100, pt_y = Num 0\<rparr> \<and>
   transform (handleZoom desktop (Num 2) (Num 600) (Num 400) False
      (initialViewState\<lparr>transform := \<lparr>tr_x = Num 0, tr_y = Num 0, tr_scale = Num 1\<rparr>\<rparr>)) =
      \<lparr>tr_x = Num (- 50), tr_y = Num 0, tr_scale = Num 2\<rparr> \<and>
   worldToScreen desktop \<lparr>tr_x = Num (- 50), tr_y = Num 0, tr_scale = Num 2\<rparr>
      \<lparr>pt_x = Num 100, pt_y = Num 0\<rparr> = \<lparr>pt_x = Num 650, pt_y = Num 400\<rparr>"
  by (simp add: screenToWorld_def worldToScreen_def handleZoom_def desktop_def
      effectiveUpdateTransform_def isMobile_def updateTransform_def initialViewState_def
      clampScale_def SCALES_MIN_def SCALES_MAX_def minus_number_def Let_def)


lemma handleWheel_pan_transform:
  assumes "\<not> ctrlKey e" and "\<not> metaKey e"
    and "\<not> isMobile env \<or> now env - lastCall st \<ge> 16"
  shows "transform (handleWheel env e st) =
     (let t = transform st; panSpeed = Num 2.5 / tr_scale t;
          maxPanX = Num (innerWidth env) * Num 2; maxPanY = Num (innerHeight env) * Num 2
      in \<lparr>tr_x = Math_max (- maxPanX) (Math_min maxPanX (tr_x t - deltaX e * panSpeed)),
          tr_y = Math_max (- maxPanY) (Math_min maxPanY (tr_y t - deltaY e * panSpeed)),
          tr_scale = clampScale (tr_scale t) SCALES_MIN SCALES_MAX\<rparr>)"
  using assms
  by (auto simp: handleWheel_def effectiveUpdateTransform_def throttledUpdateTransform_def
      updateTransform_def Let_def)

text \<open>Claim C7, as amended: a wheel event without the zoom modifier, with
  \<open>deltaX = 100\<close> and \<open>deltaY = 0\<close>, at scale 0.5 and not dropped by the throttle of
  mobile devices, sets \<open>transform.x\<close> to \<open>x - 100 * 2.5 / 0.5 = x - 500\<close> clamped to the
  pan range \<open>[-2 * innerWidth, 2 * innerWidth]\<close>, and leaves the scale at 0.5. The
  shift is the full 500, twice the unscaled 250, whenever \<open>x - 500\<close> lies in the pan
  range.\<close>

theorem handleWheel_pan:
  assumes "\<not> ctrlKey e" and "\<not> metaKey e"
    and "deltaX e = Num 100" and "deltaY e = Num 0"
    and "transform st = \<lparr>tr_x = Num a, tr_y = Num b, tr_scale = Num 0.5\<rparr>"
    and "\<not> isMobile env \<or> now env - lastCall st \<ge> 16"
  shows "tr_x (transform (handleWheel env e st)) =
           Num (max (- (innerWidth env * 2)) (min (innerWidth env * 2) (a - 100 * 2.5 / 0.5))) \<and>
         tr_scale (transform (handleWheel env e st)) = Num 0.5 \<and>
         (\<bar>a - 500\<bar> \<le> innerWidth env * 2 \<longrightarrow>
            tr_x (transform (handleWheel env e st)) = Num (a - 500))"
proof -
  have "transform (handleWheel env e st) =
      \<lparr>tr_x = Num (max (- (innerWidth env * 2)) (min (innerWidth env * 2) (a - 500))),
       tr_y = Num (max (- (innerHeight env * 2)) (min (innerHeight env * 2) b)),
       tr_scale = Num 0.5\<rparr>"
    using assms(3-5)
    by (simp add: handleWheel_pan_transform[OF assms(1,2,6)] Let_def minus_number_def
        clampScale_def SCALES_MIN_def SCALES_MAX_def)
  then show ?thesis by auto
qed

theorem handleWheel_pan_witness:
  "tr_x (transform (handleWheel desktop panEvent (viewAt 0 0 0.5))) = Num (- 500) \<and>
   tr_scale (transform (handleWheel desktop panEvent (viewAt 0 0 0.5))) = Num 0.5"
  using handleWheel_pan [of panEvent "viewAt 0 0 0.5" 0 0 desktop]
  by (simp add: panEvent_def viewAt_def desktop_def isMobile_def)

text \<open>Claim C7 as stated fails at the edge of the pan range: in a window 1000 pixels
  wide, from \<open>x = -1800\<close> the same wheel event moves \<open>x\<close> to the bound \<open>-2000\<close>, a shift
  of 200 and not of 500 in either direction.\<close>

theorem handleWheel_pan_counterexample:
  "tr_x (transform (handleWheel desktop panEvent (viewAt (- 1800) 0 0.5))) = Num (- 2000) \<and>
   Num (- 2000) \<noteq> Num (- 1800) - Num 100 * Num 2.5 / Num 0.5 \<and>
   Num (- 2000) \<noteq> Num (- 1800) + Num 100 * Num 2.5 / Num 0.5"
  by (simp add: handleWheel_def panEvent_def viewAt_def desktop_def isMobile_def
      effectiveUpdateTransform_def updateTransform_def minus_number_def Let_def)

section \<open>Card focus\<close>

lemma js_rem_nonneg: "0 \<le> a \<Longrightarrow> 0 < n \<Longrightarrow> js_rem a n = Some (a mod n)"
  by (cases "a = 0") (simp_all add: js_rem_def sgn_if)

lemma js_rem_neg: "a < 0 \<Longrightarrow> 0 < n \<Longrightarrow> js_rem a n = Some (- ((- a) mod n))"
  by (simp add: js_rem_def sgn_if)

text \<open>The double remainder of \<open>focusOnCard\<close> is the non-negative residue.\<close>

lemma js_rem_wrap:
  assumes "0 < n"
  shows "(case js_rem index n of None \<Rightarrow> None | Some r \<Rightarrow> js_rem (r + n) n) = Some (index mod n)"
proof (cases "0 \<le> index")
  case True
  have "0 \<le> index mod n + n" using assms by (simp add: add_nonneg_nonneg)
  then have "js_rem (index mod n + n) n = Some (index mod n)"
    using assms by (simp add: js_rem_nonneg)
  then show ?thesis
    using True assms by (simp add: js_rem_nonneg)
next
  case False
  have bounds: "0 \<le> (- index) mod n" "(- index) mod n < n"
    using assms by simp_all
  then have "0 \<le> - ((- index) mod n) + n" by simp
  then have "js_rem (- ((- index) mod n) + n) n = Some ((- ((- index) mod n) + n) mod n)"
    using assms by (rule js_rem_nonneg)
  moreover have "(- ((- index) mod n) + n) mod n = index mod n"
    by (metis add.commute mod_add_self1 mod_minus_eq minus_minus)
  ultimately show ?thesis
    using False assms by (simp add: js_rem_neg)
qed

text \<open>Claim C5: on a non-empty list of \<open>n\<close> items, \<open>focusOnCard\<close> returns normally and
  sets \<open>currentIndex\<close> to the value of \<open>((index % n) + n) % n\<close>, which is the residue of
  \<open>index\<close> modulo \<open>n\<close> in \<open>0 .. n - 1\<close>, for negative indices too. So \<open>onFocusNext\<close> at
  index \<open>n - 1\<close> moves to 0 and \<open>onFocusPrev\<close> at index 0 moves to \<open>n - 1\<close>.\<close>

theorem focusOnCard_wraps:
  assumes "items \<noteq> []"
  shows "(case js_rem index (int (length items)) of
            None \<Rightarrow> None
          | Some r \<Rightarrow> js_rem (r + int (length items)) (int (length items))) =
           Some (index mod int (length items)) \<and>
         map_sum id currentIndex (focusOnCard env items index st) =
           Inr (index mod int (length items)) \<and>
         (currentIndex st = int (length items) - 1 \<longrightarrow>
            map_sum id currentIndex (onFocusNext env items st) = Inr 0) \<and>
         (currentIndex st = 0 \<longrightarrow>
            map_sum id currentIndex (onFocusPrev env items st) = Inr (int (length items) - 1))"
proof -
  let ?n = "int (length items)"
  have n: "0 < ?n" using assms by simp
  have focus: "map_sum id currentIndex (focusOnCard env items i st) = Inr (i mod ?n)" for i
  proof -
    have "0 \<le> i mod ?n" "i mod ?n < ?n" using n by simp_all
    then have "at_index items (i mod ?n) = Some (items ! nat (i mod ?n))"
      by (simp add: at_index_def)
    then show ?thesis
      using assms by (simp add: focusOnCard_def js_rem_wrap[OF n] Let_def)
  qed
  have "(?n - 1 + 1) mod ?n = 0" by simp
  moreover have "(0 - 1) mod ?n = ?n - 1"
    using n by (simp add: zmod_minus1)
  ultimately show ?thesis
    by (simp add: focus js_rem_wrap[OF n] onFocusNext_def onFocusPrev_def)
qed

text \<open>The scenario of the claim: five items, indices 0 to 4.\<close>

theorem focusOnCard_wraps_witness:
  "fiveItems \<noteq> [] \<and>
   map_sum id currentIndex
     (onFocusPrev desktop fiveItems \<lparr>currentIndex = 0, view = initialViewState\<rparr>) = Inr 4 \<and>
   map_sum id currentIndex
     (onFocusNext desktop fiveItems \<lparr>currentIndex = 4, view = initialViewState\<rparr>) = Inr 0 \<and>
   map_sum id currentIndex
     (focusOnCard desktop fiveItems (- 7) \<lparr>currentIndex = 0, view = initialViewState\<rparr>) = Inr 3"
proof -
  have ne: "fiveItems \<noteq> []" by (simp add: fiveItems_def)
  show ?thesis
    using ne
      focusOnCard_wraps [OF ne, where env = desktop and index = "- 7"
        and st = "\<lparr>currentIndex = 0, view = initialViewState\<rparr>"]
      focusOnCard_wraps [OF ne, where env = desktop and index = 0
        and st = "\<lparr>currentIndex = 4, view = initialViewState\<rparr>"]
    by (simp add: fiveItems_def)
qed

text \<open>Claim C6: with the empty item list, \<open>focusOnCard\<close> at any index, \<open>onFocusNext\<close> and
  \<open>onFocusPrev\<close> return normally and leave the current index and the view, with its
  transform, as they were: the guard comes before the remainder by the length and
  before the read of the list.\<close>

theorem focus_empty_list_noop:
  "focusOnCard env [] index st = Inr st \<and>
   onFocusNext env [] st = Inr st \<and>
   onFocusPrev env [] st = Inr st"
  by (simp add: focusOnCard_def onFocusNext_def onFocusPrev_def)


section \<open>The item store\<close>

lemma expandItem_collapse:
  assumes "pos_expanded (position item)"
  shows "expandItem cardElement item =
     item\<lparr>position := (position item)
       \<lparr>pos_width := STICKY_NOTE_WIDTH, pos_height := STICKY_NOTE_HEIGHT, pos_expanded := False\<rparr>\<rparr>"
  using assms
  by (cases cardElement) (simp_all add: expandItem_def calculateOptimalSize_def Let_def)

lemma expandItem_expanded:
  "pos_expanded (position (expandItem cardElement item)) = (\<not> pos_expanded (position item))"
  by (simp add: expandItem_def Let_def)

lemma expandItem_twice:
  assumes "\<not> pos_expanded (position item)"
  shows "expandItem card2 (expandItem card1 item) =
     item\<lparr>position := (position item)
       \<lparr>pos_width := STICKY_NOTE_WIDTH, pos_height := STICKY_NOTE_HEIGHT, pos_expanded := False\<rparr>\<rparr>"
proof -
  have "pos_expanded (position (expandItem card1 item))"
    using assms by (simp add: expandItem_expanded)
  then have "expandItem card2 (expandItem card1 item) =
     (expandItem card1 item)\<lparr>position := (position (expandItem card1 item))
       \<lparr>pos_width := STICKY_NOTE_WIDTH, pos_height := STICKY_NOTE_HEIGHT, pos_expanded := False\<rparr>\<rparr>"
    by (rule expandItem_collapse)
  then show ?thesis by (simp add: expandItem_def Let_def)
qed

lemma expandItem_id: "item_id (expandItem cardElement item) = item_id item"
  by (simp add: expandItem_def Let_def)

lemma itemList_handleExpand:
  "itemList (handleExpand env onZoomToFit ident cardElement st) =
     map (\<lambda>item. if item_id item = ident then expandItem cardElement item else item) (itemList st)"
  by (simp add: handleExpand_def)

text \<open>Claim C4: take a collapsed item and call \<open>handleExpand\<close> on its id twice, each time
  with any card element or none, on any device, whatever the sizing engine measures or
  raises during the first call. Afterwards the item has the width \<open>STICKY_NOTE.WIDTH\<close>,
  the height \<open>STICKY_NOTE.HEIGHT\<close> and is collapsed; if it had the default size before,
  it is the item it was.\<close>

theorem handleExpand_round_trip:
  assumes "i < length (itemList st)"
    and "item_id (itemList st ! i) = ident"
    and "\<not> pos_expanded (position (itemList st ! i))"
  shows "(let st'' = handleExpand env2 zoom2 ident card2 (handleExpand env1 zoom1 ident card1 st);
              p = position (itemList st'' ! i)
          in pos_width p = STICKY_NOTE_WIDTH \<and> pos_height p = STICKY_NOTE_HEIGHT \<and>
             pos_expanded p = False \<and>
             (pos_width (position (itemList st ! i)) = STICKY_NOTE_WIDTH \<and>
              pos_height (position (itemList st ! i)) = STICKY_NOTE_HEIGHT \<longrightarrow>
              itemList st'' ! i = itemList st ! i))"
proof -
  let ?item = "itemList st ! i"
  have "itemList (handleExpand env2 zoom2 ident card2 (handleExpand env1 zoom1 ident card1 st)) ! i
        = expandItem card2 (expandItem card1 ?item)"
    using assms(1,2) by (simp add: itemList_handleExpand expandItem_id)
  also have "\<dots> = ?item\<lparr>position := (position ?item)
       \<lparr>pos_width := STICKY_NOTE_WIDTH, pos_height := STICKY_NOTE_HEIGHT, pos_expanded := False\<rparr>\<rparr>"
    using assms(3) by (rule expandItem_twice)
  finally show ?thesis using assms(3) by (simp add: Let_def)
qed

text \<open>On the second of five items: the first call measures the card and makes the item
  332 by 800, the second call, without a card element, restores it.\<close>

theorem handleExpand_round_trip_witness:
  "(1::nat) < length (itemList (storeOf fiveItems)) \<and>
   item_id (itemList (storeOf fiveItems) ! 1) = ''snip-b'' \<and>
   \<not> pos_expanded (position (itemList (storeOf fiveItems) ! 1)) \<and>
   pos_width (position (itemList
     (handleExpand desktop False ''snip-b'' (Some longCard) (storeOf fiveItems)) ! 1)) = Num 332 \<and>
   pos_height (position (itemList
     (handleExpand desktop False ''snip-b'' (Some longCard) (storeOf fiveItems)) ! 1)) = Num 800 \<and>
   itemList (handleExpand desktop False ''snip-b'' None
     (handleExpand desktop False ''snip-b'' (Some longCard) (storeOf fiveItems))) ! 1 =
     fiveItems ! 1"
  using handleExpand_round_trip [of 1 "storeOf fiveItems" "''snip-b''" desktop False None
      desktop False "Some longCard"]
  by (simp add: storeOf_def fiveItems_def exampleItem_def longCard_def handleExpand_def
      expandItem_def calculateOptimalSize_def measureContentHeight_def
      estimateContentComplexity_def STICKY_NOTE_WIDTH_def STICKY_NOTE_HEIGHT_def
      STICKY_NOTE_MIN_WIDTH_def STICKY_NOTE_MIN_HEIGHT_def STICKY_NOTE_MAX_WIDTH_def
      STICKY_NOTE_MAX_HEIGHT_def Let_def)

text \<open>Claim C8: \<open>handleExpand\<close> keeps the number and the order of the items; an item with
  another id is unchanged; the targeted item keeps its id, type, data, \<open>x\<close>, \<open>y\<close>, \<open>z\<close>
  and rotation, so that only its width, height and expanded flag may change. The drag
  session is untouched as well.\<close>

theorem handleExpand_frame:
  "(let st' = handleExpand env onZoomToFit ident cardElement st in
      length (itemList st') = length (itemList st) \<and>
      dragging st' = dragging st \<and> dragState st' = dragState st \<and>
      (\<forall>i < length (itemList st).
         let a = itemList st ! i; b = itemList st' ! i in
           (item_id a \<noteq> ident \<longrightarrow> b = a) \<and>
           item_id b = item_id a \<and> item_type b = item_type a \<and> item_data b = item_data a \<and>
           pos_x (position b) = pos_x (position a) \<and>
           pos_y (position b) = pos_y (position a) \<and>
           pos_z (position b) = pos_z (position a) \<and>
           pos_rotation (position b) = pos_rotation (position a)))"
  by (simp add: handleExpand_def expandItem_def Let_def)

theorem handleExpand_frame_witness:
  "length (itemList (handleExpand desktop False ''snip-b'' (Some longCard) (storeOf fiveItems))) = 5 \<and>
   itemList (handleExpand desktop False ''snip-b'' (Some longCard) (storeOf fiveItems)) ! 0 =
     fiveItems ! 0 \<and>
   pos_x (position (itemList
     (handleExpand desktop False ''snip-b'' (Some longCard) (storeOf fiveItems)) ! 1)) = Num 0 \<and>
   pos_z (position (itemList
     (handleExpand desktop False ''snip-b'' (Some longCard) (storeOf fiveItems)) ! 1)) = Num 1 \<and>
   pos_expanded (position (itemList
     (handleExpand desktop False ''snip-b'' (Some longCard) (storeOf fiveItems)) ! 1))"
  using handleExpand_frame [of desktop False "''snip-b''" "Some longCard" "storeOf fiveItems"]
  by (simp add: storeOf_def fiveItems_def exampleItem_def handleExpand_def expandItem_def
      Let_def)


section \<open>Paint order\<close>







section \<open>Dragging\<close>

lemma divide_Num_1 [simp]: "a / Num 1 = a"
  by (cases a) simp_all

lemma getContainerScale_NaN:
  "isNaN (scaleProperty c) \<Longrightarrow> getContainerScale (Some c) = Inr (Num 1)"
  by (simp add: getContainerScale_def getComputedScale_def)

text \<open>Claim C10: when the transform container is present and the parsed \<open>--scale\<close>
  property is \<open>NaN\<close> (missing or not a number), \<open>getContainerScale\<close> returns 1. Then
  \<open>handleDragStart\<close> and \<open>handleDragMove\<close> take as world position of the mouse its
  offset from the centre of the container, as for scale 1, and both return normally.\<close>

theorem getContainerScale_fallback:
  assumes "isNaN (scaleProperty c)"
  shows "getContainerScale (Some c) = Inr (Num 1) \<and>
    (let rect = boundingClientRect c;
         mouse = \<lparr>pt_x = clientX event - (rect_left rect + rect_width rect / Num 2),
                  pt_y = clientY event - (rect_top rect + rect_height rect / Num 2)\<rparr>
     in
       (\<forall>item. find (\<lambda>i. item_id i = ident) (itemList st) = Some item \<longrightarrow>
          handleDragStart (Some c) ident event st =
            Inr (st\<lparr>dragging := Some ident,
                    dragState :=
                      \<lparr>itemId = Some ident, initialMousePos = Some mouse,
                       initialItemPos =
                         Some \<lparr>pt_x = pos_x (position item), pt_y = pos_y (position item)\<rparr>,
                       offset =
                         Some \<lparr>pt_x = pt_x mouse - pos_x (position item),
                               pt_y = pt_y mouse - pos_y (position item)\<rparr>\<rparr>,
                    listening := True\<rparr>)) \<and>
       (\<forall>dragId off. itemId (dragState st) = Some dragId \<and> dragId \<noteq> [] \<and>
            offset (dragState st) = Some off \<longrightarrow>
          handleDragMove (Some c) event st =
            Inr (st\<lparr>itemList :=
                    map (\<lambda>item.
                           if item_id item = dragId
                           then item\<lparr>position := (position item)
                                  \<lparr>pos_x := pt_x mouse - pt_x off,
                                   pos_y := pt_y mouse - pt_y off\<rparr>\<rparr>
                           else item) (itemList st)\<rparr>))) \<and>
    \<not> isl (handleDragStart (Some c) ident event st) \<and>
    \<not> isl (handleDragMove (Some c) event st)"
proof -
  have scale: "getContainerScale (Some c) = Inr (Num 1)"
    using assms by (rule getContainerScale_NaN)
  have start: "\<not> isl (handleDragStart (Some c) ident event st)"
    by (simp add: handleDragStart_def getBoundingClientRect_def scale Let_def
        split: option.split)
  have move: "\<not> isl (handleDragMove (Some c) event st)"
    by (simp add: handleDragMove_def getBoundingClientRect_def scale Let_def
        split: option.split)
  show ?thesis
    using start move
    by (simp add: scale handleDragStart_def handleDragMove_def getBoundingClientRect_def
        relativeMouse_def Let_def)
qed

text \<open>A press at \<open>(600, 400)\<close> on the item at \<open>(0, -225)\<close> in a container centred at
  \<open>(500, 400)\<close> records the offset \<open>(100, 225)\<close>.\<close>

theorem getContainerScale_fallback_witness:
  "isNaN (scaleProperty unscaledContainer) \<and>
   getContainerScale (Some unscaledContainer) = Inr (Num 1) \<and>
   map_sum id (\<lambda>st. offset (dragState st))
     (handleDragStart (Some unscaledContainer) ''snip-b'' (mouseAt 600 400) (storeOf fiveItems)) =
     Inr (Some \<lparr>pt_x = Num 100, pt_y = Num 225\<rparr>) \<and>
   \<not> isl (handleDragMove (Some unscaledContainer) (mouseAt 600 400) (storeOf fiveItems))"
proof -
  have nan: "isNaN (scaleProperty unscaledContainer)"
    by (simp add: unscaledContainer_def)
  show ?thesis
    using nan getContainerScale_fallback [OF nan, of "mouseAt 600 400" "''snip-b''"
        "storeOf fiveItems"]
    by (simp add: unscaledContainer_def mouseAt_def storeOf_def fiveItems_def exampleItem_def
        minus_number_def Let_def)
qed

end
